theory Spec2Isabelle
  imports Complex_Main
begin

section \<open>JavaScript values\<close>

text \<open>
  A JavaScript string is a sequence of UTF-16 code units.  The narrative parser tests for
  the bullet U+2022 and \<open>trim\<close> removes white space beyond Latin-1, so the code units are
  kept as numbers; \<open>js\<close> embeds an ASCII literal.  A JavaScript number that is only stored,
  copied or compared with a constant is a \<open>real\<close> (NaN and the infinities are not modelled).
\<close>

type_synonym code_unit = nat
type_synonym jstring = "code_unit list"
type_synonym number = real

definition js :: "string \<Rightarrow> jstring" where
  "js s = map of_char s"

text \<open>\<open>arr[i]\<close> for an integral \<open>i\<close>: \<open>undefined\<close> below zero and from the length on.\<close>

definition elemAt :: "'a list \<Rightarrow> int \<Rightarrow> 'a option" where
  "elemAt arr i = (if 0 \<le> i \<and> i < int (length arr) then Some (arr ! nat i) else None)"

text \<open>\<open>a || b\<close> where a defined operand is an object (always truthy).\<close>

fun orElse :: "'a option \<Rightarrow> 'a option \<Rightarrow> 'a option" where
  "orElse (Some a) b = Some a"
| "orElse None b = b"

text \<open>\<open>opt || []\<close> for an optional array.\<close>

fun orEmpty :: "'a list option \<Rightarrow> 'a list" where
  "orEmpty (Some xs) = xs"
| "orEmpty None = []"

fun startsWith :: "jstring \<Rightarrow> jstring \<Rightarrow> bool" where
  "startsWith s [] = True"
| "startsWith [] (p # ps) = False"
| "startsWith (c # cs) (p # ps) = (c = p \<and> startsWith cs ps)"

text \<open>\<open>s.includes(sub)\<close>: \<open>sub\<close> occurs at some position of \<open>s\<close>.\<close>

fun jsIncludes :: "jstring \<Rightarrow> jstring \<Rightarrow> bool" where
  "jsIncludes [] sub = (sub = [])"
| "jsIncludes (c # cs) sub = (startsWith (c # cs) sub \<or> jsIncludes cs sub)"

text \<open>
  The code units that \<open>String.prototype.trim\<close> removes and that \<open>\s\<close> matches in a regular
  expression: the WhiteSpace and LineTerminator productions of ECMAScript.
\<close>

definition isWhiteSpace :: "code_unit \<Rightarrow> bool" where
  "isWhiteSpace c =
     (c = 9 \<or> c = 10 \<or> c = 11 \<or> c = 12 \<or> c = 13 \<or> c = 32 \<or> c = 160 \<or> c = 5760 \<or>
      (8192 \<le> c \<and> c \<le> 8202) \<or> c = 8232 \<or> c = 8233 \<or> c = 8239 \<or> c = 8287 \<or>
      c = 12288 \<or> c = 65279)"

definition trim :: "jstring \<Rightarrow> jstring" where
  "trim s = rev (dropWhile isWhiteSpace (rev (dropWhile isWhiteSpace s)))"

text \<open>\<open>s.split(sep)\<close> for a separator of one code unit; the result is never empty.\<close>

fun splitOn :: "code_unit \<Rightarrow> jstring \<Rightarrow> jstring list" where
  "splitOn sep [] = [[]]"
| "splitOn sep (c # cs) =
     (if c = sep then [] # splitOn sep cs
      else case splitOn sep cs of
             l # ls \<Rightarrow> (c # l) # ls
           | [] \<Rightarrow> [[c]])"

text \<open>The decimal digits of a template literal \<open>${n}\<close> for a length \<open>n\<close>.\<close>

fun decimal :: "nat \<Rightarrow> jstring" where
  "decimal n = (if n < 10 then [48 + n] else decimal (n div 10) @ [48 + n mod 10])"

declare decimal.simps [simp del]

section \<open>Data model (the types of the front end)\<close>

record BoundingBox =
  box_x :: number
  box_y :: number
  box_width :: number
  box_height :: number

record Heading =
  heading_text :: jstring
  heading_level :: number
  heading_location :: BoundingBox

record Paragraph =
  paragraph_text :: jstring
  paragraph_location :: BoundingBox

record ListBlock =
  list_items :: "jstring list"
  list_type :: jstring
  list_location :: BoundingBox

record ContentImage =
  cimage_src :: jstring
  cimage_alt :: jstring
  cimage_location :: BoundingBox

record Button =
  button_text :: jstring
  button_location :: BoundingBox

record FormInput =
  input_type :: jstring
  input_placeholder :: jstring
  input_required :: bool
  input_location :: BoundingBox

record FormRecord =
  form_inputs :: "FormInput list"
  form_location :: BoundingBox

record PageLink =
  link_url :: jstring
  link_text :: jstring
  link_location :: BoundingBox

record NavRecord =
  nav_items :: "PageLink list"
  nav_location :: BoundingBox

record FooterRecord =
  footer_text :: jstring
  footer_links :: "PageLink list"
  footer_location :: BoundingBox

record Metadata =
  meta_title :: "jstring option"
  meta_description :: "jstring option"
  meta_keywords :: "jstring option"
  meta_ogTitle :: "jstring option"
  meta_ogDescription :: "jstring option"
  meta_ogImage :: "jstring option"

record TextContent =
  headings :: "Heading list option"
  paragraphs :: "Paragraph list option"
  lists :: "ListBlock list option"

record PageContent =
  textContent :: "TextContent option"
  content_images :: "ContentImage list option"
  content_buttons :: "Button list option"
  content_forms :: "FormRecord list option"
  content_navigation :: "NavRecord list option"
  footerContent :: "FooterRecord option"
  metadata :: "Metadata option"

text \<open>\<open>alt\<close> is optional here because the heuristic analyzer tests for its absence.\<close>

record Image =
  image_src :: jstring
  image_alt :: "jstring option"
  image_width :: number
  image_height :: number
  image_loading :: jstring
  image_location :: BoundingBox

record Stylesheet =
  stylesheet_href :: jstring
  stylesheet_media :: jstring

record Script =
  script_src :: "jstring option"
  script_async :: bool
  script_defer :: bool

record Video =
  video_src :: "jstring option"
  video_poster :: "jstring option"
  video_width :: number
  video_height :: number
  video_autoplay :: bool
  video_controls :: bool
  video_location :: BoundingBox

record Font =
  font_href :: jstring
  font_format :: jstring

record Assets =
  images :: "Image list"
  stylesheets :: "Stylesheet list"
  scripts :: "Script list"
  videos :: "Video list"
  fonts :: "Font list"

record VisualAnalysis =
  exitPoints :: "jstring list"
  designIssues :: "jstring list"
  visual_recommendations :: "jstring list"

record AssetsAnalysis =
  performanceIssues :: "jstring list"
  accessibilityIssues :: "jstring list"
  assets_seoIssues :: "jstring list"
  bestPractices :: "jstring list"
  assets_recommendations :: "jstring list"

record ContentAnalysis =
  structureIssues :: "jstring list"
  qualityIssues :: "jstring list"
  content_seoIssues :: "jstring list"
  uxIssues :: "jstring list"
  content_recommendations :: "jstring list"

record AnalysisResult =
  res_visual :: VisualAnalysis
  res_assets :: AssetsAnalysis
  res_content :: ContentAnalysis

record PageAnalysis =
  pa_url :: jstring
  pa_title :: jstring
  pa_analysis :: AnalysisResult
  pa_screenshot :: jstring
  pa_content :: PageContent
  pa_assets :: Assets
  pa_links :: "PageLink list option"

section \<open>Location resolver (\<open>findElementLocation\<close>)\<close>

datatype issueType =
  ExitPoint | DesignIssue | Performance | Accessibility | Seo | Content | Other

text \<open>The seven element collections the resolver reads, each \<open>|| []\<close>.\<close>

definition allImages :: "PageAnalysis \<Rightarrow> ContentImage list" where
  "allImages pa = orEmpty (content_images (pa_content pa))"

definition allVideos :: "PageAnalysis \<Rightarrow> Video list" where
  "allVideos pa = videos (pa_assets pa)"

definition headingsOf :: "PageAnalysis \<Rightarrow> Heading list" where
  "headingsOf pa =
     (case textContent (pa_content pa) of None \<Rightarrow> [] | Some tc \<Rightarrow> orEmpty (headings tc))"

definition paragraphsOf :: "PageAnalysis \<Rightarrow> Paragraph list" where
  "paragraphsOf pa =
     (case textContent (pa_content pa) of None \<Rightarrow> [] | Some tc \<Rightarrow> orEmpty (paragraphs tc))"

definition linksOf :: "PageAnalysis \<Rightarrow> PageLink list" where
  "linksOf pa = orEmpty (pa_links pa)"

definition formsOf :: "PageAnalysis \<Rightarrow> FormRecord list" where
  "formsOf pa = orEmpty (content_forms (pa_content pa))"

definition navigationOf :: "PageAnalysis \<Rightarrow> NavRecord list" where
  "navigationOf pa = orEmpty (content_navigation (pa_content pa))"

definition hasElements :: "PageAnalysis \<Rightarrow> bool" where
  "hasElements pa =
     (length (allImages pa) > 0 \<or> length (allVideos pa) > 0 \<or> length (headingsOf pa) > 0 \<or>
      length (paragraphsOf pa) > 0 \<or> length (linksOf pa) > 0 \<or> length (formsOf pa) > 0 \<or>
      length (navigationOf pa) > 0)"

text \<open>\<open>arr[i]?.location\<close>.\<close>

definition locationAt :: "('a \<Rightarrow> BoundingBox) \<Rightarrow> 'a list \<Rightarrow> int \<Rightarrow> BoundingBox option" where
  "locationAt loc arr i = map_option loc (elemAt arr i)"

text \<open>
  The \<open>switch\<close> on the issue type.  \<open>issueLower\<close> is \<open>issue.toLowerCase()\<close>, computed by the
  caller of this function.
\<close>

fun categoryLocation ::
  "issueType \<Rightarrow> jstring \<Rightarrow> PageAnalysis \<Rightarrow> int \<Rightarrow> BoundingBox option" where
  "categoryLocation ExitPoint issueLower pa index =
     (if length (linksOf pa) > 0
      then locationAt link_location (linksOf pa) (min index (int (length (linksOf pa)) - 1))
      else None)"
| "categoryLocation DesignIssue issueLower pa index =
     (if length (allImages pa) > 0
      then locationAt cimage_location (allImages pa) (min index (int (length (allImages pa)) - 1))
      else None)"
| "categoryLocation Performance issueLower pa index =
     (if jsIncludes issueLower (js ''image'') \<and> length (allImages pa) > 0
      then locationAt cimage_location (allImages pa) 0
      else if jsIncludes issueLower (js ''video'') \<and> length (allVideos pa) > 0
      then locationAt video_location (allVideos pa) 0
      else if length (allImages pa) > 0
      then locationAt cimage_location (allImages pa) 0
      else None)"
| "categoryLocation Accessibility issueLower pa index =
     (if jsIncludes issueLower (js ''form'') \<and> length (formsOf pa) > 0
      then locationAt form_location (formsOf pa) 0
      else if jsIncludes issueLower (js ''image'') \<and> length (allImages pa) > 0
      then locationAt cimage_location (allImages pa) 0
      else if jsIncludes issueLower (js ''navigation'') \<and> length (navigationOf pa) > 0
      then locationAt nav_location (navigationOf pa) 0
      else if length (allImages pa) > 0
      then locationAt cimage_location (allImages pa) 0
      else None)"
| "categoryLocation Seo issueLower pa index =
     (if jsIncludes issueLower (js ''heading'') \<and> length (headingsOf pa) > 0
      then locationAt heading_location (headingsOf pa) 0
      else if jsIncludes issueLower (js ''content'') \<and> length (paragraphsOf pa) > 0
      then locationAt paragraph_location (paragraphsOf pa) 0
      else if length (headingsOf pa) > 0
      then locationAt heading_location (headingsOf pa) 0
      else None)"
| "categoryLocation Content issueLower pa index =
     (if length (paragraphsOf pa) > 0
      then locationAt paragraph_location (paragraphsOf pa)
             (min index (int (length (paragraphsOf pa)) - 1))
      else if length (headingsOf pa) > 0
      then locationAt heading_location (headingsOf pa)
             (min index (int (length (headingsOf pa)) - 1))
      else None)"
| "categoryLocation Other issueLower pa index =
     (if jsIncludes issueLower (js ''navigation'') \<and> length (navigationOf pa) > 0
      then locationAt nav_location (navigationOf pa) 0
      else if jsIncludes issueLower (js ''image'') \<and> length (allImages pa) > 0
      then locationAt cimage_location (allImages pa) 0
      else if jsIncludes issueLower (js ''text'') \<and> length (paragraphsOf pa) > 0
      then locationAt paragraph_location (paragraphsOf pa) 0
      else if jsIncludes issueLower (js ''link'') \<and> length (linksOf pa) > 0
      then locationAt link_location (linksOf pa) 0
      else None)"

text \<open>The final \<open>||\<close> chain over the first element of each collection.\<close>

definition fallbackLocation :: "PageAnalysis \<Rightarrow> BoundingBox option" where
  "fallbackLocation pa =
     orElse (locationAt cimage_location (allImages pa) 0)
    (orElse (locationAt heading_location (headingsOf pa) 0)
    (orElse (locationAt paragraph_location (paragraphsOf pa) 0)
    (orElse (locationAt link_location (linksOf pa) 0)
    (orElse (locationAt form_location (formsOf pa) 0)
    (orElse (locationAt nav_location (navigationOf pa) 0)
            (locationAt video_location (allVideos pa) 0))))))"

text \<open>
  \<open>findElementLocation(issue, pageAnalysis, index, issueType)\<close>; \<open>None\<close> is \<open>undefined\<close>.
  \<open>String.prototype.toLowerCase\<close> is a host built-in over the whole of Unicode; it is the
  parameter \<open>toLowerCase\<close>.  The index is an integer, as at every call site.
\<close>

definition findElementLocation ::
  "(jstring \<Rightarrow> jstring) \<Rightarrow> jstring \<Rightarrow> PageAnalysis \<Rightarrow> int \<Rightarrow> issueType \<Rightarrow> BoundingBox option" where
  "findElementLocation toLowerCase issue pageAnalysis index issueType =
     (if \<not> hasElements pageAnalysis then None
      else case categoryLocation issueType (toLowerCase issue) pageAnalysis index of
             Some location \<Rightarrow> Some location
           | None \<Rightarrow> fallbackLocation pageAnalysis)"

text \<open>Lower-casing of the ASCII letters, for evaluating the resolver on ASCII issue texts.\<close>

definition asciiLower :: "jstring \<Rightarrow> jstring" where
  "asciiLower s = map (\<lambda>c. if 65 \<le> c \<and> c \<le> 90 then c + 32 else c) s"

text \<open>The boxes of the elements present in a page analysis.\<close>

definition elementBoxes :: "PageAnalysis \<Rightarrow> BoundingBox set" where
  "elementBoxes pa =
     cimage_location ` set (allImages pa) \<union> video_location ` set (allVideos pa) \<union>
     heading_location ` set (headingsOf pa) \<union> paragraph_location ` set (paragraphsOf pa) \<union>
     link_location ` set (linksOf pa) \<union> form_location ` set (formsOf pa) \<union>
     nav_location ` set (navigationOf pa)"

section \<open>Heuristic analyzer (\<open>generateDefaultAnalysis\<close>)\<close>

definition emptyAnalysis :: AnalysisResult where
  "emptyAnalysis =
     \<lparr>res_visual = \<lparr>exitPoints = [], designIssues = [], visual_recommendations = []\<rparr>,
      res_assets = \<lparr>performanceIssues = [], accessibilityIssues = [], assets_seoIssues = [],
                    bestPractices = [], assets_recommendations = []\<rparr>,
      res_content = \<lparr>structureIssues = [], qualityIssues = [], content_seoIssues = [],
                     uxIssues = [], content_recommendations = []\<rparr>\<rparr>"

text \<open>\<open>!img.alt || img.alt.trim() === ''\<close>: the alt is absent, empty, or only white space.\<close>

definition withoutAlt :: "Image \<Rightarrow> bool" where
  "withoutAlt img =
     (case image_alt img of None \<Rightarrow> True | Some alt \<Rightarrow> alt = [] \<or> trim alt = [])"

definition isLarge :: "Image \<Rightarrow> bool" where
  "isLarge img = (image_width img > 1000 \<or> image_height img > 1000)"

text \<open>The five checks, in the order of the source; each pushes onto the lists of \<open>analysis\<close>.\<close>

definition checkAltText :: "Assets \<Rightarrow> AnalysisResult \<Rightarrow> AnalysisResult" where
  "checkAltText as analysis =
     (let imagesWithoutAlt = filter withoutAlt (images as) in
      if length imagesWithoutAlt > 0
      then analysis\<lparr>res_assets := (res_assets analysis)
             \<lparr>accessibilityIssues := accessibilityIssues (res_assets analysis) @
                [decimal (length imagesWithoutAlt) @ js '' images missing alt text''],
              assets_recommendations := assets_recommendations (res_assets analysis) @
                [js ''Add descriptive alt text to all images'']\<rparr>\<rparr>
      else analysis)"

definition checkLargeImages :: "Assets \<Rightarrow> AnalysisResult \<Rightarrow> AnalysisResult" where
  "checkLargeImages as analysis =
     (let largeImages = filter isLarge (images as) in
      if length largeImages > 0
      then analysis\<lparr>res_assets := (res_assets analysis)
             \<lparr>performanceIssues := performanceIssues (res_assets analysis) @
                [decimal (length largeImages) @ js '' large images may slow down page load''],
              assets_recommendations := assets_recommendations (res_assets analysis) @
                [js ''Optimize and resize large images'']\<rparr>\<rparr>
      else analysis)"

definition pushStructure :: "jstring \<Rightarrow> jstring \<Rightarrow> AnalysisResult \<Rightarrow> AnalysisResult" where
  "pushStructure issue recommendation analysis =
     analysis\<lparr>res_content := (res_content analysis)
       \<lparr>structureIssues := structureIssues (res_content analysis) @ [issue],
        content_recommendations := content_recommendations (res_content analysis) @
          [recommendation]\<rparr>\<rparr>"

definition contentHeadings :: "PageContent \<Rightarrow> Heading list" where
  "contentHeadings c = (case textContent c of None \<Rightarrow> [] | Some tc \<Rightarrow> orEmpty (headings tc))"

definition contentParagraphs :: "PageContent \<Rightarrow> Paragraph list" where
  "contentParagraphs c = (case textContent c of None \<Rightarrow> [] | Some tc \<Rightarrow> orEmpty (paragraphs tc))"

definition h1Count :: "Heading list \<Rightarrow> nat" where
  "h1Count hs = length (filter (\<lambda>h. heading_level h = 1) hs)"

definition checkHeadings :: "PageContent \<Rightarrow> AnalysisResult \<Rightarrow> AnalysisResult" where
  "checkHeadings c analysis =
     (let hs = contentHeadings c in
      if length hs = 0
      then pushStructure (js ''No headings found on the page'')
             (js ''Add proper heading structure (H1, H2, etc.)'') analysis
      else if h1Count hs = 0
      then pushStructure (js ''No H1 heading found'')
             (js ''Add a single H1 heading as the main title'') analysis
      else if h1Count hs > 1
      then pushStructure (js ''Multiple H1 headings ('' @ decimal (h1Count hs) @ js '') found'')
             (js ''Use only one H1 heading per page'') analysis
      else analysis)"

text \<open>\<open>!content.metadata?.description || content.metadata.description.trim() === ''\<close>.\<close>

definition descriptionMissing :: "PageContent \<Rightarrow> bool" where
  "descriptionMissing c =
     (case metadata c of
        None \<Rightarrow> True
      | Some m \<Rightarrow> (case meta_description m of None \<Rightarrow> True | Some d \<Rightarrow> d = [] \<or> trim d = []))"

definition checkMetaDescription :: "PageContent \<Rightarrow> AnalysisResult \<Rightarrow> AnalysisResult" where
  "checkMetaDescription c analysis =
     (if descriptionMissing c
      then analysis\<lparr>res_content := (res_content analysis)
             \<lparr>content_seoIssues := content_seoIssues (res_content analysis) @
                [js ''Missing meta description''],
              content_recommendations := content_recommendations (res_content analysis) @
                [js ''Add a descriptive meta description'']\<rparr>\<rparr>
      else analysis)"

definition checkShortContent :: "PageContent \<Rightarrow> AnalysisResult \<Rightarrow> AnalysisResult" where
  "checkShortContent c analysis =
     (if length (contentParagraphs c) < 3
      then analysis\<lparr>res_content := (res_content analysis)
             \<lparr>qualityIssues := qualityIssues (res_content analysis) @
                [js ''Limited text content found''],
              content_recommendations := content_recommendations (res_content analysis) @
                [js ''Add more descriptive text content'']\<rparr>\<rparr>
      else analysis)"

definition generateDefaultAnalysis :: "PageContent \<Rightarrow> Assets \<Rightarrow> AnalysisResult" where
  "generateDefaultAnalysis c as =
     checkShortContent c (checkMetaDescription c (checkHeadings c
       (checkLargeImages as (checkAltText as emptyAnalysis))))"

text \<open>
  The reading of the specification's words "empty or missing alt attribute": the attribute
  is absent or is the empty string.
\<close>

definition spec_emptyOrMissingAlt :: "Image \<Rightarrow> bool" where
  "spec_emptyOrMissingAlt img = (image_alt img = None \<or> image_alt img = Some [])"

section \<open>Narrative parser\<close>

text \<open>
  \<open>text.match(/LABEL(.*?)(?=NEXT|$)/s)[1]\<close>: the first occurrence of the label is where the
  match starts (the lazy group can always run to the end of the text, so that start
  succeeds); the group is the shortest text after which \<open>NEXT\<close> follows or the text ends.
  \<open>None\<close> is the \<open>undefined\<close> of \<open>(null || [])[1]\<close>.
\<close>

fun afterFirst :: "jstring \<Rightarrow> jstring \<Rightarrow> jstring option" where
  "afterFirst label [] = (if label = [] then Some [] else None)"
| "afterFirst label (c # cs) =
     (if startsWith (c # cs) label then Some (drop (length label) (c # cs))
      else afterFirst label cs)"

fun untilLabel :: "jstring \<Rightarrow> jstring \<Rightarrow> jstring" where
  "untilLabel next [] = []"
| "untilLabel next (c # cs) = (if startsWith (c # cs) next then [] else c # untilLabel next cs)"

text \<open>\<open>next = None\<close> is the last section, \<open>/LABEL(.*?)$/s\<close>.\<close>

definition matchSection :: "jstring \<Rightarrow> jstring option \<Rightarrow> jstring \<Rightarrow> jstring option" where
  "matchSection label next response_text =
     (case afterFirst label response_text of
        None \<Rightarrow> None
      | Some rest \<Rightarrow> (case next of None \<Rightarrow> Some rest | Some n \<Rightarrow> Some (untilLabel n rest)))"

text \<open>\<open>point.match(/^[-\<bullet>*]/)\<close>, the bullet being U+2022.\<close>

definition startsWithBullet :: "jstring \<Rightarrow> bool" where
  "startsWithBullet point =
     (case point of [] \<Rightarrow> False | c # _ \<Rightarrow> c = 45 \<or> c = 8226 \<or> c = 42)"

definition isDigit :: "code_unit \<Rightarrow> bool" where
  "isDigit c = (48 \<le> c \<and> c \<le> 57)"

text \<open>\<open>point.replace(/^[0-9]+\.\s*/, '')\<close>.\<close>

definition stripOrdinal :: "jstring \<Rightarrow> jstring" where
  "stripOrdinal point =
     (let rest = dropWhile isDigit point in
      if takeWhile isDigit point \<noteq> [] \<and> startsWith rest [46]
      then dropWhile isWhiteSpace (drop 1 rest)
      else point)"

definition keepPoint :: "jstring \<Rightarrow> bool" where
  "keepPoint point = (point \<noteq> [] \<and> \<not> startsWithBullet point)"

text \<open>
  \<open>section ? section.split('\n').map(trim).filter(...).map(replace) : []\<close>; an empty
  string is falsy.
\<close>

definition processSection :: "jstring option \<Rightarrow> jstring list" where
  "processSection sec =
     (case sec of
        None \<Rightarrow> []
      | Some s \<Rightarrow>
          if s = [] then []
          else map stripOrdinal (filter keepPoint (map trim (splitOn 10 s))))"

text \<open>The parsing of \<open>analyzePageWithAI\<close>, from \<open>response_text\<close> to the returned object.\<close>

definition parseVisual :: "jstring \<Rightarrow> VisualAnalysis" where
  "parseVisual response_text =
     \<lparr>exitPoints = processSection
        (matchSection (js ''Exit Points:'') (Some (js ''Design Issues:'')) response_text),
      designIssues = processSection
        (matchSection (js ''Design Issues:'') (Some (js ''Recommendations:'')) response_text),
      visual_recommendations = processSection
        (matchSection (js ''Recommendations:'') None response_text)\<rparr>"

text \<open>The parsing of \<open>analyzeAssetsWithAI\<close>.\<close>

definition parseAssets :: "jstring \<Rightarrow> AssetsAnalysis" where
  "parseAssets response_text =
     \<lparr>performanceIssues = processSection
        (matchSection (js ''Performance Issues:'') (Some (js ''Accessibility Issues:'')) response_text),
      accessibilityIssues = processSection
        (matchSection (js ''Accessibility Issues:'') (Some (js ''SEO Issues:'')) response_text),
      assets_seoIssues = processSection
        (matchSection (js ''SEO Issues:'') (Some (js ''Best Practices:'')) response_text),
      bestPractices = processSection
        (matchSection (js ''Best Practices:'') (Some (js ''Recommendations:'')) response_text),
      assets_recommendations = processSection
        (matchSection (js ''Recommendations:'') None response_text)\<rparr>"

text \<open>The parsing of \<open>analyzeContentWithAI\<close>.\<close>

definition parseContent :: "jstring \<Rightarrow> ContentAnalysis" where
  "parseContent response_text =
     \<lparr>structureIssues = processSection
        (matchSection (js ''Content Structure Issues:'') (Some (js ''Content Quality Issues:''))
           response_text),
      qualityIssues = processSection
        (matchSection (js ''Content Quality Issues:'') (Some (js ''SEO Content Issues:''))
           response_text),
      content_seoIssues = processSection
        (matchSection (js ''SEO Content Issues:'') (Some (js ''UX/UI Issues:'')) response_text),
      uxIssues = processSection
        (matchSection (js ''UX/UI Issues:'') (Some (js ''Recommendations:'')) response_text),
      content_recommendations = processSection
        (matchSection (js ''Recommendations:'') None response_text)\<rparr>"

text \<open>
  The post-processing in the specification's words: split on line breaks, trim, drop the
  lines that are a bullet marker and nothing else, strip the leading ordinals, drop the
  empty lines.
\<close>

definition spec_pureBulletLine :: "jstring \<Rightarrow> bool" where
  "spec_pureBulletLine point = (point = [45] \<or> point = [8226] \<or> point = [42])"

definition spec_processSection :: "jstring \<Rightarrow> jstring list" where
  "spec_processSection s =
     filter (\<lambda>point. point \<noteq> [])
       (map stripOrdinal (filter (\<lambda>point. \<not> spec_pureBulletLine point) (map trim (splitOn 10 s))))"

text \<open>
  The section texts on which the two agree: no trimmed line has text after a leading bullet
  marker, and no trimmed line is an ordinal and nothing else.
\<close>

definition plainSection :: "jstring \<Rightarrow> bool" where
  "plainSection s =
     list_all (\<lambda>point. (startsWithBullet point \<longrightarrow> spec_pureBulletLine point) \<and>
                      (point \<noteq> [] \<longrightarrow> stripOrdinal point \<noteq> []))
       (map trim (splitOn 10 s))"

section \<open>Page capture: the auto-scroll sweep\<close>

text \<open>
  The timer callback of \<open>autoScroll\<close> reads \<open>document.body.scrollHeight\<close>, scrolls by
  \<open>distance = 100\<close>, adds the distance to \<open>totalHeight\<close> and resolves the promise once
  \<open>totalHeight >= scrollHeight\<close>.  A page is the sequence of scroll heights that the
  successive callbacks read; the sweep returns the final \<open>totalHeight\<close>, and \<open>None\<close> is a
  promise that is never resolved.
\<close>

type_synonym page = "nat \<Rightarrow> nat"

partial_function (option) autoScrollFrom :: "page \<Rightarrow> nat \<Rightarrow> nat \<Rightarrow> nat option" where
  "autoScrollFrom scrollHeightAt tick totalHeight =
     (let scrollHeight = scrollHeightAt tick;
          totalHeight' = totalHeight + 100
      in if totalHeight' \<ge> scrollHeight then Some totalHeight'
         else autoScrollFrom scrollHeightAt (Suc tick) totalHeight')"

definition autoScroll :: "page \<Rightarrow> nat option" where
  "autoScroll scrollHeightAt = autoScrollFrom scrollHeightAt 0 0"

text \<open>An infinite-scroll page: every callback finds the document one step longer.\<close>

definition growingPage :: page where
  "growingPage tick = 100 * tick + 200"

text \<open>A page of constant height 250.\<close>

definition staticPage :: page where
  "staticPage tick = 250"

section \<open>The model service\<close>

text \<open>
  A chat-completion request is kept as the values interpolated into its fixed prompt
  template.  The service either rejects (network error, non-success status: the client
  throws) or completes with the \<open>message.content\<close> of each choice (\<open>None\<close> is \<open>null\<close>).
\<close>

record SimplifiedContent =
  simp_title :: jstring
  simp_headings :: "(jstring \<times> number) list"
  simp_paragraphs :: "jstring list"
  simp_lists :: "(jstring list \<times> jstring) list"
  simp_buttons :: "jstring list"
  simp_images :: "(jstring \<times> jstring option) list"
  simp_navigation :: "(jstring \<times> jstring) list list"

datatype request =
    AssetsPrompt jstring jstring nat nat nat nat nat
  | ContentPrompt jstring jstring nat nat nat nat nat nat "jstring option list"
  | VisualPrompt jstring jstring jstring
  | PageContentPrompt SimplifiedContent

datatype ai_response = Rejected | Completed "jstring option list"

text \<open>
  The process environment and the remote model behind the \<open>openai\<close> client.  The log is
  the sequence of requests issued so far.
\<close>

record Environment =
  OPENAI_API_KEY :: "jstring option"
  chat :: "request \<Rightarrow> ai_response"

definition create :: "Environment \<Rightarrow> request \<Rightarrow> request list \<Rightarrow> ai_response \<times> request list" where
  "create env req issued = (chat env req, issued @ [req])"

text \<open>
  \<open>analysis.choices[0].message.content || ''\<close> inside \<open>try\<close>: \<open>None\<close> is an exception (the
  rejected request, or the TypeError of reading \<open>message\<close> when there is no choice).
\<close>

fun responseText :: "ai_response \<Rightarrow> jstring option" where
  "responseText Rejected = None"
| "responseText (Completed []) = None"
| "responseText (Completed (None # cs)) = Some []"
| "responseText (Completed (Some txt # cs)) = Some txt"

section \<open>The pipeline of \<open>src/api/analyze.js\<close>\<close>

record InteractiveElements =
  ie_buttons :: "Button list"
  ie_forms :: "FormRecord list"

record ServerTextContent =
  st_headings :: "Heading list"
  st_paragraphs :: "Paragraph list"
  st_lists :: "ListBlock list"

record ServerContent =
  sc_metadata :: Metadata
  sc_textContent :: ServerTextContent
  sc_interactiveElements :: InteractiveElements
  sc_navigation :: "NavRecord list"
  sc_footerContent :: "FooterRecord option"

record ServerPage =
  sp_url :: jstring
  sp_title :: jstring
  sp_screenshot :: jstring
  sp_content :: ServerContent
  sp_assets :: Assets
  sp_analysis :: AnalysisResult

record ServerResult =
  mainPage :: ServerPage
  allLinks :: "jstring list"

datatype js_error = Error jstring | OpenAIError

text \<open>
  Both modules start with \<open>const openai = new OpenAI({apiKey: process.env.OPENAI_API_KEY})\<close>.
  The constructor belongs to the \<open>openai\<close> package, not to the repository: it throws when
  it is given no key (the variable is unset) and accepts any string, the empty one too.
\<close>

definition newOpenAI :: "jstring option \<Rightarrow> js_error + unit" where
  "newOpenAI apiKey = (case apiKey of None \<Rightarrow> Inl OpenAIError | Some k \<Rightarrow> Inr ())"

text \<open>
  The ways a call into a module can go: the module did not load, the promise is never
  settled, it is rejected, or it is fulfilled; the last two with the requests issued.
\<close>

datatype 'a run =
  NotLoaded js_error | Pending | Thrown js_error "request list" | Returned 'a "request list"

text \<open>The top-level statements of a module run before any call of a function it exports.\<close>

definition withClient :: "Environment \<Rightarrow> 'a run \<Rightarrow> 'a run" where
  "withClient env call =
     (case newOpenAI (OPENAI_API_KEY env) of Inl e \<Rightarrow> NotLoaded e | Inr client \<Rightarrow> call)"

fun requestsOf :: "'a run \<Rightarrow> request list" where
  "requestsOf (NotLoaded e) = []"
| "requestsOf Pending = []"
| "requestsOf (Thrown e issued) = issued"
| "requestsOf (Returned r issued) = issued"

text \<open>
  What the browser does for the URL, statement by statement.  A step that throws carries
  the message of its error (\<open>Some\<close> or \<open>Inl\<close>).  \<open>page.goto\<close> throws (bad URL, timeout) or
  yields a response with \<open>ok()\<close>, \<open>status()\<close> and \<open>statusText()\<close>.  \<open>page.evaluate\<close> of the
  sweep is rejected or the sweep runs on the page's scroll heights.  The screenshot is in
  base64.  An extraction is rejected when its in-page function throws (as \<open>new URL\<close> does
  on an unparseable \<open>src\<close>), or gives the extracted value.
\<close>

datatype navigation = Throws jstring | Response bool nat jstring

record Browser =
  br_launch :: "jstring option"
  br_newPage :: "jstring option"
  br_setViewport :: "jstring option"
  br_goto :: navigation
  br_autoScroll :: "jstring + page"
  br_screenshot :: "jstring + jstring"
  br_extractLinks :: "jstring + jstring list"
  br_extractAssets :: "jstring + Assets"
  br_extractContent :: "jstring + ServerContent"
  br_title :: "jstring + jstring"
  br_close :: "jstring option"

record Captured =
  cap_screenshot :: jstring
  cap_links :: "jstring list"
  cap_assets :: Assets
  cap_content :: ServerContent
  cap_title :: jstring

definition assetsRequest :: "Assets \<Rightarrow> jstring \<Rightarrow> jstring \<Rightarrow> request" where
  "assetsRequest as pageTitle pageUrl =
     AssetsPrompt pageTitle pageUrl (length (images as)) (length (stylesheets as))
       (length (scripts as)) (length (videos as)) (length (fonts as))"

definition contentRequest :: "ServerContent \<Rightarrow> jstring \<Rightarrow> jstring \<Rightarrow> request" where
  "contentRequest c pageTitle pageUrl =
     ContentPrompt pageTitle pageUrl
       (length (st_headings (sc_textContent c))) (length (st_paragraphs (sc_textContent c)))
       (length (st_lists (sc_textContent c))) (length (ie_buttons (sc_interactiveElements c)))
       (length (ie_forms (sc_interactiveElements c))) (length (sc_navigation c))
       [meta_title (sc_metadata c), meta_description (sc_metadata c), meta_keywords (sc_metadata c),
        meta_ogTitle (sc_metadata c), meta_ogDescription (sc_metadata c),
        meta_ogImage (sc_metadata c)]"

definition assetsError :: AssetsAnalysis where
  "assetsError =
     \<lparr>performanceIssues = [js ''Error analyzing assets with AI''], accessibilityIssues = [],
      assets_seoIssues = [], bestPractices = [], assets_recommendations = []\<rparr>"

definition contentError :: ContentAnalysis where
  "contentError =
     \<lparr>structureIssues = [js ''Error analyzing content with AI''], qualityIssues = [],
      content_seoIssues = [], uxIssues = [], content_recommendations = []\<rparr>"

definition visualError :: VisualAnalysis where
  "visualError =
     \<lparr>exitPoints = [js ''Error analyzing page with AI''], designIssues = [],
      visual_recommendations = []\<rparr>"

definition noAssetsIssues :: AssetsAnalysis where
  "noAssetsIssues =
     \<lparr>performanceIssues = [], accessibilityIssues = [], assets_seoIssues = [],
      bestPractices = [], assets_recommendations = []\<rparr>"

definition analyzeAssetsWithAI ::
  "Environment \<Rightarrow> Assets \<Rightarrow> jstring \<Rightarrow> jstring \<Rightarrow> request list \<Rightarrow> AssetsAnalysis \<times> request list" where
  "analyzeAssetsWithAI env as pageTitle pageUrl issued =
     (let (analysis, issued') = create env (assetsRequest as pageTitle pageUrl) issued in
      case responseText analysis of
        None \<Rightarrow> (assetsError, issued')
      | Some response_text \<Rightarrow> (parseAssets response_text, issued'))"

definition analyzeContentWithAI ::
  "Environment \<Rightarrow> ServerContent \<Rightarrow> jstring \<Rightarrow> jstring \<Rightarrow> request list \<Rightarrow>
   ContentAnalysis \<times> request list" where
  "analyzeContentWithAI env c pageTitle pageUrl issued =
     (let (analysis, issued') = create env (contentRequest c pageTitle pageUrl) issued in
      case responseText analysis of
        None \<Rightarrow> (contentError, issued')
      | Some response_text \<Rightarrow> (parseContent response_text, issued'))"

definition analyzePageWithAI ::
  "Environment \<Rightarrow> jstring \<Rightarrow> jstring \<Rightarrow> jstring \<Rightarrow> request list \<Rightarrow> VisualAnalysis \<times> request list" where
  "analyzePageWithAI env pageTitle pageUrl screenshot issued =
     (let (analysis, issued') = create env (VisualPrompt pageTitle pageUrl screenshot) issued in
      case responseText analysis of
        None \<Rightarrow> (visualError, issued')
      | Some response_text \<Rightarrow> (parseVisual response_text, issued'))"

text \<open>
  The statements of \<open>analyze\<close> from \<open>browser.newPage()\<close> to \<open>page.title()\<close>, in their order.
  \<open>Inl\<close> is the message of the error thrown by the first statement that fails; \<open>None\<close> is
  a sweep that never resolves, so that the \<open>await\<close> never continues.  \<open>await\<close> and
  \<open>awaitVoid\<close> pass the value of a step on, or stop at its error.
\<close>

definition await :: "jstring + 'a \<Rightarrow> ('a \<Rightarrow> (jstring + 'b) option) \<Rightarrow> (jstring + 'b) option" where
  "await step continue =
     (case step of Inl message \<Rightarrow> Some (Inl message) | Inr v \<Rightarrow> continue v)"

definition awaitVoid :: "jstring option \<Rightarrow> (jstring + 'b) option \<Rightarrow> (jstring + 'b) option" where
  "awaitVoid step continue =
     (case step of Some message \<Rightarrow> Some (Inl message) | None \<Rightarrow> continue)"

definition capture :: "Browser \<Rightarrow> (jstring + Captured) option" where
  "capture browser =
     awaitVoid (br_newPage browser)
    (awaitVoid (br_setViewport browser)
    (case br_goto browser of
       Throws message \<Rightarrow> Some (Inl message)
     | Response ok status statusText \<Rightarrow>
         if \<not> ok
         then Some (Inl (js ''Failed to load page: '' @ decimal status @ js '' '' @ statusText))
         else
           await (br_autoScroll browser) (\<lambda>scrollHeightAt.
             case autoScroll scrollHeightAt of
               None \<Rightarrow> None
             | Some totalHeight \<Rightarrow>
                 await (br_screenshot browser) (\<lambda>screenshot.
                 await (br_extractLinks browser) (\<lambda>links.
                 await (br_extractAssets browser) (\<lambda>as.
                 await (br_extractContent browser) (\<lambda>c.
                 await (br_title browser) (\<lambda>pageTitle.
                   Some (Inr \<lparr>cap_screenshot = screenshot, cap_links = links, cap_assets = as,
                              cap_content = c, cap_title = pageTitle\<rparr>)))))))))"

text \<open>The \<open>catch\<close> block: \<open>throw new Error(error.message || 'Failed to analyze website')\<close>.\<close>

definition rethrow :: "jstring \<Rightarrow> js_error" where
  "rethrow message = Error (if message = [] then js ''Failed to analyze website'' else message)"

text \<open>
  The \<open>finally\<close> block, reached with a launched browser: \<open>await browser.close()\<close>.  An error
  thrown there replaces the outcome of the \<open>try\<close>.
\<close>

fun closeBrowser :: "jstring option \<Rightarrow> 'a run \<Rightarrow> 'a run" where
  "closeBrowser cl (NotLoaded e) = NotLoaded e"
| "closeBrowser cl Pending = Pending"
| "closeBrowser None (Thrown e issued) = Thrown e issued"
| "closeBrowser None (Returned r issued) = Returned r issued"
| "closeBrowser (Some message) (Thrown e issued) = Thrown (Error message) issued"
| "closeBrowser (Some message) (Returned r issued) = Thrown (Error message) issued"

text \<open>
  \<open>analyze(url)\<close>, started with an empty request log.  The function does not read
  \<open>OPENAI_API_KEY\<close>.
\<close>

definition analyze :: "Environment \<Rightarrow> Browser \<Rightarrow> jstring \<Rightarrow> ServerResult run" where
  "analyze env browser url =
     (case br_launch browser of
        Some message \<Rightarrow> Thrown (rethrow message) []
      | None \<Rightarrow>
          closeBrowser (br_close browser)
            (case capture browser of
               None \<Rightarrow> Pending
             | Some (Inl message) \<Rightarrow> Thrown (rethrow message) []
             | Some (Inr cap) \<Rightarrow>
                 let pageTitle = cap_title cap;
                     (assetsAnalysis, log1) =
                       analyzeAssetsWithAI env (cap_assets cap) pageTitle url [];
                     (contentAnalysis, log2) =
                       analyzeContentWithAI env (cap_content cap) pageTitle url log1;
                     (visualAnalysis, log3) =
                       analyzePageWithAI env pageTitle url (cap_screenshot cap) log2
                 in Returned
                      \<lparr>mainPage =
                         \<lparr>sp_url = url, sp_title = pageTitle, sp_screenshot = cap_screenshot cap,
                          sp_content = cap_content cap, sp_assets = cap_assets cap,
                          sp_analysis = \<lparr>res_visual = visualAnalysis, res_assets = assetsAnalysis,
                                         res_content = contentAnalysis\<rparr>\<rparr>,
                       allLinks = cap_links cap\<rparr>
                      log3))"

text \<open>The analysis of a returned result; \<open>None\<close> when nothing was returned.\<close>

fun analysisOf :: "ServerResult run \<Rightarrow> AnalysisResult option" where
  "analysisOf (Returned r issued) = Some (sp_analysis (mainPage r))"
| "analysisOf (NotLoaded e) = None"
| "analysisOf Pending = None"
| "analysisOf (Thrown e issued) = None"

section \<open>The serverless pipeline: \<open>analyzePageContent\<close>\<close>

definition simplifiedContent :: "PageContent \<Rightarrow> Assets \<Rightarrow> SimplifiedContent" where
  "simplifiedContent c as =
     \<lparr>simp_title =
        (case metadata c of None \<Rightarrow> [] | Some m \<Rightarrow> (case meta_title m of None \<Rightarrow> [] | Some t \<Rightarrow> t)),
      simp_headings = map (\<lambda>h. (heading_text h, heading_level h)) (contentHeadings c),
      simp_paragraphs = map paragraph_text (contentParagraphs c),
      simp_lists =
        (case textContent c of
           None \<Rightarrow> []
         | Some tc \<Rightarrow> map (\<lambda>l. (list_items l, list_type l)) (orEmpty (lists tc))),
      simp_buttons = map button_text (orEmpty (content_buttons c)),
      simp_images = map (\<lambda>img. (image_src img, image_alt img)) (images as),
      simp_navigation =
        map (\<lambda>nav. map (\<lambda>item. (link_text item, link_url item)) (nav_items nav))
          (orEmpty (content_navigation c))\<rparr>"

text \<open>\<open>!process.env.OPENAI_API_KEY\<close>: the variable is unset or empty.\<close>

definition keyMissing :: "Environment \<Rightarrow> bool" where
  "keyMissing env = (case OPENAI_API_KEY env of None \<Rightarrow> True | Some k \<Rightarrow> k = [])"

text \<open>
  \<open>analyzePageContent(page, content, assets)\<close> returns a JavaScript value: what
  \<open>JSON.parse\<close> made of the message content, whatever its shape, or the default analysis.
  \<open>JSON.parse\<close> is a host built-in; it is the parameter \<open>JSON_parse\<close>, from the message
  content (\<open>None\<close> is \<open>null\<close>) to the parsed value, \<open>None\<close> for a SyntaxError.
\<close>

datatype 'j analysis = ModelJSON 'j | DefaultAnalysis AnalysisResult

definition analyzePageContent ::
  "Environment \<Rightarrow> (jstring option \<Rightarrow> 'j option) \<Rightarrow> PageContent \<Rightarrow> Assets \<Rightarrow>
   request list \<Rightarrow> 'j analysis run" where
  "analyzePageContent env JSON_parse c as issued =
     (if keyMissing env then Returned (DefaultAnalysis (generateDefaultAnalysis c as)) issued
      else
        let (completion, issued') = create env (PageContentPrompt (simplifiedContent c as)) issued in
        case completion of
          Rejected \<Rightarrow> Returned (DefaultAnalysis (generateDefaultAnalysis c as)) issued'
        | Completed [] \<Rightarrow> Returned (DefaultAnalysis (generateDefaultAnalysis c as)) issued'
        | Completed (analysisText # cs) \<Rightarrow>
            (case JSON_parse analysisText of
               None \<Rightarrow> Returned (DefaultAnalysis (generateDefaultAnalysis c as)) issued'
             | Some analysis \<Rightarrow> Returned (ModelJSON analysis) issued'))"

section \<open>Example inputs\<close>

definition exampleBox :: "number \<Rightarrow> BoundingBox" where
  "exampleBox n = \<lparr>box_x = n, box_y = 40 * n, box_width = 120, box_height = 24\<rparr>"

definition emptyContent :: PageContent where
  "emptyContent =
     \<lparr>textContent = None, content_images = None, content_buttons = None, content_forms = None,
      content_navigation = None, footerContent = None, metadata = None\<rparr>"

definition emptyAssets :: Assets where
  "emptyAssets = \<lparr>images = [], stylesheets = [], scripts = [], videos = [], fonts = []\<rparr>"

text \<open>A page analysis whose only elements are two links, and one with no element at all.\<close>

definition linksPage :: PageAnalysis where
  "linksPage =
     \<lparr>pa_url = js ''https://a.test/'', pa_title = js ''A'', pa_analysis = emptyAnalysis,
      pa_screenshot = [], pa_content = emptyContent, pa_assets = emptyAssets,
      pa_links = Some
        [\<lparr>link_url = js ''https://a.test/'', link_text = js ''Home'', link_location = exampleBox 1\<rparr>,
         \<lparr>link_url = js ''https://a.test/b'', link_text = js ''B'', link_location = exampleBox 2\<rparr>]\<rparr>"

definition emptyPage :: PageAnalysis where
  "emptyPage = linksPage\<lparr>pa_links := None\<rparr>"

text \<open>Assets whose only image has a one-space alt; three images, two of them without alt.\<close>

definition exampleImage :: "jstring option \<Rightarrow> Image" where
  "exampleImage alt =
     \<lparr>image_src = js ''https://a.test/i.png'', image_alt = alt, image_width = 64,
      image_height = 64, image_loading = [], image_location = exampleBox 3\<rparr>"

definition blankAltAssets :: Assets where
  "blankAltAssets = emptyAssets\<lparr>images := [exampleImage (Some (js '' ''))]\<rparr>"

definition threeImageAssets :: Assets where
  "threeImageAssets =
     emptyAssets\<lparr>images := [exampleImage None, exampleImage (Some (js ''Logo'')),
                              exampleImage (Some [])]\<rparr>"

definition exampleHeading :: "number \<Rightarrow> Heading" where
  "exampleHeading lvl =
     \<lparr>heading_text = js ''Title'', heading_level = lvl, heading_location = exampleBox 4\<rparr>"

definition headingsContent :: "Heading list \<Rightarrow> PageContent" where
  "headingsContent hs =
     emptyContent\<lparr>textContent := Some \<lparr>headings = Some hs, paragraphs = None, lists = None\<rparr>\<rparr>"

text \<open>The narrative of the specification's example, and one with a bulleted exit point.\<close>

definition exampleNarrative :: jstring where
  "exampleNarrative =
     js ''Exit Points:\<newline>A\<newline>B\<newline>\<newline>Design Issues:\<newline>C''"

definition bulletSection :: jstring where
  "bulletSection = js ''\<newline>- Checkout link leaves the site\<newline>2. Footer\<newline>''"

definition bulletNarrative :: jstring where
  "bulletNarrative = js ''Exit Points:'' @ bulletSection"

definition plainExample :: jstring where
  "plainExample = js ''\<newline>A\<newline>2. B\<newline>-\<newline>\<newline>  C  ''"

text \<open>A captured page for the pipeline of \<open>analyze\<close>, and model services.\<close>

definition exampleServerContent :: ServerContent where
  "exampleServerContent =
     \<lparr>sc_metadata = \<lparr>meta_title = Some (js ''A''), meta_description = None, meta_keywords = None,
                      meta_ogTitle = None, meta_ogDescription = None, meta_ogImage = None\<rparr>,
      sc_textContent = \<lparr>st_headings = [exampleHeading 2], st_paragraphs = [], st_lists = []\<rparr>,
      sc_interactiveElements = \<lparr>ie_buttons = [], ie_forms = []\<rparr>,
      sc_navigation = [], sc_footerContent = None\<rparr>"

definition exampleUrl :: jstring where
  "exampleUrl = js ''https://a.test/''"

definition shortPage :: page where
  "shortPage tick = 80"

definition exampleCaptured :: Captured where
  "exampleCaptured =
     \<lparr>cap_screenshot = js ''iVBORw0KGgo='', cap_links = [exampleUrl],
      cap_assets = threeImageAssets, cap_content = exampleServerContent, cap_title = js ''A''\<rparr>"

definition exampleBrowser :: Browser where
  "exampleBrowser =
     \<lparr>br_launch = None, br_newPage = None, br_setViewport = None,
      br_goto = Response True 200 (js ''OK''), br_autoScroll = Inr shortPage,
      br_screenshot = Inr (cap_screenshot exampleCaptured),
      br_extractLinks = Inr (cap_links exampleCaptured),
      br_extractAssets = Inr (cap_assets exampleCaptured),
      br_extractContent = Inr (cap_content exampleCaptured),
      br_title = Inr (cap_title exampleCaptured), br_close = None\<rparr>"

text \<open>A model that answers every request of \<open>analyze\<close> with a well-formed narrative.\<close>

fun healthyChat :: "request \<Rightarrow> ai_response" where
  "healthyChat (AssetsPrompt t u a b c d e) =
     Completed [Some (js ''Performance Issues:\<newline>1. Images are not lazy-loaded'')]"
| "healthyChat (ContentPrompt t u a b c d e f m) =
     Completed [Some (js ''Content Structure Issues:\<newline>No H1'')]"
| "healthyChat (VisualPrompt t u s) = Completed [Some exampleNarrative]"
| "healthyChat (PageContentPrompt sc) = Rejected"

text \<open>The same model with the assets request failing, and with an empty assets reply.\<close>

fun assetsDownChat :: "request \<Rightarrow> ai_response" where
  "assetsDownChat (AssetsPrompt t u a b c d e) = Rejected"
| "assetsDownChat req = healthyChat req"

fun assetsEmptyChat :: "request \<Rightarrow> ai_response" where
  "assetsEmptyChat (AssetsPrompt t u a b c d e) = Completed [Some []]"
| "assetsEmptyChat req = healthyChat req"

definition healthyEnv :: Environment where
  "healthyEnv = \<lparr>OPENAI_API_KEY = Some (js ''sk-test''), chat = healthyChat\<rparr>"

definition assetsDownEnv :: Environment where
  "assetsDownEnv = \<lparr>OPENAI_API_KEY = Some (js ''sk-test''), chat = assetsDownChat\<rparr>"

definition assetsEmptyEnv :: Environment where
  "assetsEmptyEnv = \<lparr>OPENAI_API_KEY = Some (js ''sk-test''), chat = assetsEmptyChat\<rparr>"

text \<open>
  No credential: the variable is unset, or set to the empty string; the service rejects
  every request.
\<close>

fun rejectAll :: "request \<Rightarrow> ai_response" where
  "rejectAll req = Rejected"

fun rejectJSON :: "jstring option \<Rightarrow> unit option" where
  "rejectJSON txt = None"

definition noKeyEnv :: Environment where
  "noKeyEnv = \<lparr>OPENAI_API_KEY = None, chat = rejectAll\<rparr>"

definition emptyKeyEnv :: Environment where
  "emptyKeyEnv = \<lparr>OPENAI_API_KEY = Some [], chat = rejectAll\<rparr>"

section \<open>Properties of the location resolver\<close>

lemma locationAt_0: "locationAt loc arr 0 = (case arr of [] \<Rightarrow> None | a # _ \<Rightarrow> Some (loc a))"
  by (cases arr) (simp_all add: locationAt_def elemAt_def)

lemma locationAt_mem: "locationAt loc arr i = Some b \<Longrightarrow> b \<in> loc ` set arr"
  by (auto simp: locationAt_def elemAt_def split: if_splits)

lemma locationAt_last:
  "arr \<noteq> [] \<Longrightarrow> locationAt loc arr (int (length arr) - 1) = Some (loc (last arr))"
  by (cases arr rule: rev_cases) (auto simp: locationAt_def elemAt_def nth_append)

lemma fallbackLocation_None: "fallbackLocation pa = None \<longleftrightarrow> \<not> hasElements pa"
  by (auto simp: fallbackLocation_def hasElements_def locationAt_0 split: list.splits)

lemma fallbackLocation_mem: "fallbackLocation pa = Some b \<Longrightarrow> b \<in> elementBoxes pa"
  by (auto simp: fallbackLocation_def elementBoxes_def locationAt_0 split: list.splits)

lemma categoryLocation_mem: "categoryLocation t s pa i = Some b \<Longrightarrow> b \<in> elementBoxes pa"
  by (cases t) (auto simp: elementBoxes_def split: if_splits dest!: locationAt_mem)

lemma fallbackLocation_order:
  "hasElements pa \<Longrightarrow>
   fallbackLocation pa =
     Some (if allImages pa \<noteq> [] then cimage_location (hd (allImages pa))
           else if headingsOf pa \<noteq> [] then heading_location (hd (headingsOf pa))
           else if paragraphsOf pa \<noteq> [] then paragraph_location (hd (paragraphsOf pa))
           else if linksOf pa \<noteq> [] then link_location (hd (linksOf pa))
           else if formsOf pa \<noteq> [] then form_location (hd (formsOf pa))
           else if navigationOf pa \<noteq> [] then nav_location (hd (navigationOf pa))
           else video_location (hd (allVideos pa)))"
  by (auto simp: fallbackLocation_def hasElements_def locationAt_0 split: list.splits)

lemmas example_page_defs =
  linksPage_def emptyPage_def emptyContent_def emptyAssets_def allImages_def allVideos_def
  headingsOf_def paragraphsOf_def linksOf_def formsOf_def navigationOf_def

text \<open>
  C3.  For every issue text, category and index, the resolver reports no location exactly
  when the page's images, videos, headings, paragraphs, links, forms and navigation blocks
  are all empty.  With at least one element it returns a box: the one the category rule
  finds, or else the box of the first image, else of the first heading, the first
  paragraph, the first link, the first form, the first navigation block, the first video.
  (The images are those of \<open>content.images\<close>, the videos those of \<open>assets.videos\<close>.)
\<close>

theorem resolver_undefined_iff:
  "(findElementLocation toLowerCase issue pa index issueType = None \<longleftrightarrow>
     allImages pa = [] \<and> allVideos pa = [] \<and> headingsOf pa = [] \<and> paragraphsOf pa = [] \<and>
     linksOf pa = [] \<and> formsOf pa = [] \<and> navigationOf pa = [])
   \<and> (\<not> (allImages pa = [] \<and> allVideos pa = [] \<and> headingsOf pa = [] \<and> paragraphsOf pa = [] \<and>
          linksOf pa = [] \<and> formsOf pa = [] \<and> navigationOf pa = []) \<longrightarrow>
      findElementLocation toLowerCase issue pa index issueType =
        (case categoryLocation issueType (toLowerCase issue) pa index of
           Some box \<Rightarrow> Some box
         | None \<Rightarrow>
             Some (if allImages pa \<noteq> [] then cimage_location (hd (allImages pa))
                   else if headingsOf pa \<noteq> [] then heading_location (hd (headingsOf pa))
                   else if paragraphsOf pa \<noteq> [] then paragraph_location (hd (paragraphsOf pa))
                   else if linksOf pa \<noteq> [] then link_location (hd (linksOf pa))
                   else if formsOf pa \<noteq> [] then form_location (hd (formsOf pa))
                   else if navigationOf pa \<noteq> [] then nav_location (hd (navigationOf pa))
                   else video_location (hd (allVideos pa)))))"
proof -
  have el: "\<not> hasElements pa \<longleftrightarrow>
     allImages pa = [] \<and> allVideos pa = [] \<and> headingsOf pa = [] \<and> paragraphsOf pa = [] \<and>
     linksOf pa = [] \<and> formsOf pa = [] \<and> navigationOf pa = []"
    unfolding hasElements_def by auto
  have "findElementLocation toLowerCase issue pa index issueType = None \<longleftrightarrow> \<not> hasElements pa"
    by (cases "categoryLocation issueType (toLowerCase issue) pa index")
       (simp_all add: findElementLocation_def fallbackLocation_None)
  then have none: "findElementLocation toLowerCase issue pa index issueType = None \<longleftrightarrow>
     allImages pa = [] \<and> allVideos pa = [] \<and> headingsOf pa = [] \<and> paragraphsOf pa = [] \<and>
     linksOf pa = [] \<and> formsOf pa = [] \<and> navigationOf pa = []"
    using el by (rule trans)
  have some: "findElementLocation toLowerCase issue pa index issueType =
        (case categoryLocation issueType (toLowerCase issue) pa index of
           Some box \<Rightarrow> Some box
         | None \<Rightarrow>
             Some (if allImages pa \<noteq> [] then cimage_location (hd (allImages pa))
                   else if headingsOf pa \<noteq> [] then heading_location (hd (headingsOf pa))
                   else if paragraphsOf pa \<noteq> [] then paragraph_location (hd (paragraphsOf pa))
                   else if linksOf pa \<noteq> [] then link_location (hd (linksOf pa))
                   else if formsOf pa \<noteq> [] then form_location (hd (formsOf pa))
                   else if navigationOf pa \<noteq> [] then nav_location (hd (navigationOf pa))
                   else video_location (hd (allVideos pa))))"
    if h: "hasElements pa"
    using h fallbackLocation_order [OF h]
    by (simp add: findElementLocation_def split: option.splits)
  from none some el show ?thesis by blast
qed

theorem resolver_undefined_iff_witness:
  "findElementLocation asciiLower (js ''Large image slows the page'') emptyPage 0 Performance = None
   \<and> findElementLocation asciiLower (js ''Large image slows the page'') linksPage 0 Performance
       = Some (exampleBox 1)"
  using resolver_undefined_iff [of asciiLower "js ''Large image slows the page''" emptyPage 0 Performance]
    resolver_undefined_iff [of asciiLower "js ''Large image slows the page''" linksPage 0 Performance]
  by (simp add: example_page_defs)

text \<open>
  C4.  With at least one link and an index at or beyond the length of the link list, the
  resolver for category exit-point returns the box of the last link.
\<close>

theorem exitPoint_clamps_to_last_link:
  assumes "linksOf pa \<noteq> []" and "int (length (linksOf pa)) \<le> index"
  shows "findElementLocation toLowerCase issue pa index ExitPoint
           = Some (link_location (last (linksOf pa)))"
proof -
  have "min index (int (length (linksOf pa)) - 1) = int (length (linksOf pa)) - 1"
    using assms(2) by simp
  then show ?thesis
    using assms(1) by (simp add: findElementLocation_def hasElements_def locationAt_last)
qed

theorem exitPoint_clamps_to_last_link_witness:
  "linksOf linksPage \<noteq> [] \<and> int (length (linksOf linksPage)) \<le> 7 \<and>
   findElementLocation asciiLower (js ''Footer link leaves the site'') linksPage 7 ExitPoint
     = Some (exampleBox 2)"
  using exitPoint_clamps_to_last_link
          [of linksPage 7 asciiLower "js ''Footer link leaves the site''"]
  by (simp add: example_page_defs)

text \<open>
  C10.  A box returned by the resolver is the location of an element present in the given
  page analysis: one of its images, videos, headings, paragraphs, links, forms or
  navigation blocks.
\<close>

theorem resolver_box_of_element:
  "findElementLocation toLowerCase issue pa index issueType = Some b \<Longrightarrow> b \<in> elementBoxes pa"
  by (auto simp: findElementLocation_def split: if_splits option.splits
           dest: categoryLocation_mem fallbackLocation_mem)

theorem resolver_box_of_element_witness:
  "findElementLocation asciiLower (js ''Missing heading'') linksPage 0 Seo = Some (exampleBox 1)
   \<and> exampleBox 1 \<in> elementBoxes linksPage"
proof -
  have h: "findElementLocation asciiLower (js ''Missing heading'') linksPage 0 Seo
             = Some (exampleBox 1)"
    by (simp add: findElementLocation_def hasElements_def fallbackLocation_def locationAt_0
          example_page_defs)
  from resolver_box_of_element [OF h] h show ?thesis by simp
qed

section \<open>Properties of the heuristic analyzer\<close>

lemma decimal_digit: "n < 10 \<Longrightarrow> decimal n = [48 + n]"
  by (simp add: decimal.simps)

lemma checkShortContent_assets [simp]: "res_assets (checkShortContent c a) = res_assets a"
  by (simp add: checkShortContent_def)

lemma checkMetaDescription_assets [simp]: "res_assets (checkMetaDescription c a) = res_assets a"
  by (simp add: checkMetaDescription_def)

lemma checkHeadings_assets [simp]: "res_assets (checkHeadings c a) = res_assets a"
  by (simp add: checkHeadings_def pushStructure_def Let_def)

lemma checkShortContent_structure [simp]:
  "structureIssues (res_content (checkShortContent c a)) = structureIssues (res_content a)"
  by (simp add: checkShortContent_def)

lemma checkMetaDescription_structure [simp]:
  "structureIssues (res_content (checkMetaDescription c a)) = structureIssues (res_content a)"
  by (simp add: checkMetaDescription_def)

lemma checkLargeImages_content [simp]: "res_content (checkLargeImages as a) = res_content a"
  by (simp add: checkLargeImages_def Let_def)

lemma checkAltText_content [simp]: "res_content (checkAltText as a) = res_content a"
  by (simp add: checkAltText_def Let_def)

lemma checkLargeImages_accessibility [simp]:
  "accessibilityIssues (res_assets (checkLargeImages as a)) = accessibilityIssues (res_assets a)"
  by (simp add: checkLargeImages_def Let_def)

lemma gda_accessibility:
  "accessibilityIssues (res_assets (generateDefaultAnalysis c as)) =
     (if 0 < length (filter withoutAlt (images as))
      then [decimal (length (filter withoutAlt (images as))) @ js '' images missing alt text'']
      else [])"
  by (simp add: generateDefaultAnalysis_def checkAltText_def emptyAnalysis_def Let_def)

lemma gda_assets_recommendations:
  "assets_recommendations (res_assets (generateDefaultAnalysis c as)) =
     (if 0 < length (filter withoutAlt (images as))
      then [js ''Add descriptive alt text to all images''] else []) @
     (if 0 < length (filter isLarge (images as))
      then [js ''Optimize and resize large images''] else [])"
  by (simp add: generateDefaultAnalysis_def checkLargeImages_def checkAltText_def
        emptyAnalysis_def Let_def)

lemma gda_structure:
  "structureIssues (res_content (generateDefaultAnalysis c as)) =
     (if length (contentHeadings c) = 0 then [js ''No headings found on the page'']
      else if h1Count (contentHeadings c) = 0 then [js ''No H1 heading found'']
      else if h1Count (contentHeadings c) > 1
      then [js ''Multiple H1 headings ('' @ decimal (h1Count (contentHeadings c)) @ js '') found'']
      else [])"
  by (simp add: generateDefaultAnalysis_def checkHeadings_def pushStructure_def
        emptyAnalysis_def Let_def)

lemma recommendations_differ:
  "js ''Optimize and resize large images'' \<noteq> js ''Add descriptive alt text to all images''"
  by (simp add: js_def)

lemma contentHeadings_example: "contentHeadings (headingsContent hs) = hs"
  by (simp add: contentHeadings_def headingsContent_def emptyContent_def)

text \<open>
  C5, as the code has it.  Let N be the number of images whose alt is absent, empty or only
  white space (\<open>withoutAlt\<close>).  If N > 0 the accessibility issues of the heuristic analysis
  are exactly the one entry "N images missing alt text" and the companion recommendation
  occurs exactly once among the asset recommendations; if N = 0 there is no accessibility
  issue and the recommendation does not occur.
\<close>

theorem alt_rule:
  "accessibilityIssues (res_assets (generateDefaultAnalysis c as)) =
     (if 0 < length (filter withoutAlt (images as))
      then [decimal (length (filter withoutAlt (images as))) @ js '' images missing alt text'']
      else [])
   \<and> count_list (assets_recommendations (res_assets (generateDefaultAnalysis c as)))
        (js ''Add descriptive alt text to all images'') =
     (if 0 < length (filter withoutAlt (images as)) then 1 else 0)"
  by (simp add: gda_accessibility gda_assets_recommendations recommendations_differ)

theorem alt_rule_witness:
  "length (filter withoutAlt (images threeImageAssets)) = 2 \<and>
   accessibilityIssues (res_assets (generateDefaultAnalysis emptyContent threeImageAssets)) =
     [js ''2 images missing alt text''] \<and>
   count_list (assets_recommendations (res_assets (generateDefaultAnalysis emptyContent threeImageAssets)))
        (js ''Add descriptive alt text to all images'') = 1"
proof -
  have n: "length (filter withoutAlt (images threeImageAssets)) = 2"
    by (simp add: threeImageAssets_def emptyAssets_def exampleImage_def withoutAlt_def trim_def
          isWhiteSpace_def js_def)
  show ?thesis
    using alt_rule [of emptyContent threeImageAssets] by (simp add: n decimal_digit js_def)
qed

text \<open>
  C5 as stated counts the images with an empty or missing alt.  An image whose alt is one
  space is not among them, so N = 0 and the statement promises no accessibility issue; the
  analyzer reports one image.
\<close>

theorem alt_rule_counterexample:
  "length (filter spec_emptyOrMissingAlt (images blankAltAssets)) = 0 \<and>
   accessibilityIssues (res_assets (generateDefaultAnalysis emptyContent blankAltAssets)) =
     [js ''1 images missing alt text'']"
proof -
  have n: "length (filter withoutAlt (images blankAltAssets)) = 1"
    by (simp add: blankAltAssets_def emptyAssets_def exampleImage_def withoutAlt_def trim_def
          isWhiteSpace_def js_def)
  have s: "length (filter spec_emptyOrMissingAlt (images blankAltAssets)) = 0"
    by (simp add: blankAltAssets_def emptyAssets_def exampleImage_def spec_emptyOrMissingAlt_def
          js_def)
  show ?thesis by (simp add: gda_accessibility n s decimal_digit js_def)
qed

text \<open>
  C6.  For a content record with at least one heading: with no level-1 heading the
  structure issues are exactly "No H1 heading found"; with k > 1 level-1 headings they are
  exactly "Multiple H1 headings (k) found"; with exactly one they are empty.
\<close>

theorem h1_rule:
  assumes "contentHeadings c \<noteq> []"
  shows "structureIssues (res_content (generateDefaultAnalysis c as)) =
     (if h1Count (contentHeadings c) = 0 then [js ''No H1 heading found'']
      else if h1Count (contentHeadings c) > 1
      then [js ''Multiple H1 headings ('' @ decimal (h1Count (contentHeadings c)) @ js '') found'']
      else [])"
  using assms by (simp add: gda_structure)

theorem h1_rule_witness:
  "structureIssues (res_content (generateDefaultAnalysis (headingsContent [exampleHeading 2]) emptyAssets))
     = [js ''No H1 heading found'']
   \<and> structureIssues (res_content (generateDefaultAnalysis
        (headingsContent [exampleHeading 1, exampleHeading 2, exampleHeading 1]) emptyAssets))
     = [js ''Multiple H1 headings (2) found'']
   \<and> structureIssues (res_content (generateDefaultAnalysis
        (headingsContent [exampleHeading 1, exampleHeading 2]) emptyAssets)) = []"
  using h1_rule [of "headingsContent [exampleHeading 2]" emptyAssets]
    h1_rule [of "headingsContent [exampleHeading 1, exampleHeading 2, exampleHeading 1]" emptyAssets]
    h1_rule [of "headingsContent [exampleHeading 1, exampleHeading 2]" emptyAssets]
  by (simp add: contentHeadings_example h1Count_def exampleHeading_def decimal_digit js_def)

section \<open>Properties of the narrative parser\<close>

lemmas parser_defs =
  matchSection_def processSection_def keepPoint_def trim_def isWhiteSpace_def stripOrdinal_def
  isDigit_def startsWithBullet_def js_def

lemma afterFirst_None: "\<not> jsIncludes t label \<Longrightarrow> afterFirst label t = None"
  by (induction t) auto

lemma matchSection_None: "\<not> jsIncludes t label \<Longrightarrow> matchSection label next t = None"
  by (simp add: matchSection_def afterFirst_None)

lemma processSection_pipeline:
  "processSection (Some s) = map stripOrdinal (filter keepPoint (map trim (splitOn 10 s)))"
  by (cases s) (simp_all add: processSection_def keepPoint_def trim_def)

lemma agree_lines:
  "list_all (\<lambda>point. (startsWithBullet point \<longrightarrow> spec_pureBulletLine point) \<and>
                      (point \<noteq> [] \<longrightarrow> stripOrdinal point \<noteq> [])) xs \<Longrightarrow>
   map stripOrdinal (filter keepPoint xs) =
   filter (\<lambda>point. point \<noteq> [])
       (map stripOrdinal (filter (\<lambda>point. \<not> spec_pureBulletLine point) xs))"
proof (induction xs)
  case Nil
  then show ?case by simp
next
  case (Cons p ps)
  have e: "stripOrdinal [] = []" by (simp add: stripOrdinal_def)
  have pb: "spec_pureBulletLine p \<Longrightarrow> startsWithBullet p"
    by (auto simp: spec_pureBulletLine_def startsWithBullet_def)
  from Cons show ?case
    by (cases "p = []") (auto simp: keepPoint_def e pb spec_pureBulletLine_def)
qed

text \<open>
  C2.  The narrative "Exit Points:\<newline>A\<newline>B\<newline>\<newline>Design Issues:\<newline>C" parses to exit points A, B,
  design issue C and no recommendation; and for every narrative, a section whose label
  does not occur in it comes out as the empty list.  The parser is a total function into
  the result record: there is no error outcome.
\<close>

theorem visual_parser_sections:
  "parseVisual exampleNarrative =
     \<lparr>exitPoints = [js ''A'', js ''B''], designIssues = [js ''C''], visual_recommendations = []\<rparr>
   \<and> (\<not> jsIncludes t (js ''Exit Points:'') \<longrightarrow> exitPoints (parseVisual t) = [])
   \<and> (\<not> jsIncludes t (js ''Design Issues:'') \<longrightarrow> designIssues (parseVisual t) = [])
   \<and> (\<not> jsIncludes t (js ''Recommendations:'') \<longrightarrow> visual_recommendations (parseVisual t) = [])"
proof -
  have "parseVisual exampleNarrative =
     \<lparr>exitPoints = [js ''A'', js ''B''], designIssues = [js ''C''], visual_recommendations = []\<rparr>"
    by (simp add: parseVisual_def exampleNarrative_def parser_defs)
  moreover have "\<not> jsIncludes t label \<Longrightarrow> processSection (matchSection label nxt t) = []"
    for label nxt
    by (simp add: matchSection_None processSection_def)
  ultimately show ?thesis
    by (simp add: parseVisual_def)
qed

theorem visual_parser_sections_witness:
  "\<not> jsIncludes (js ''All good'') (js ''Exit Points:'') \<and>
   \<not> jsIncludes (js ''All good'') (js ''Design Issues:'') \<and>
   \<not> jsIncludes (js ''All good'') (js ''Recommendations:'') \<and>
   parseVisual (js ''All good'') =
     \<lparr>exitPoints = [], designIssues = [], visual_recommendations = []\<rparr>"
proof -
  have a: "\<not> jsIncludes (js ''All good'') (js ''Exit Points:'')"
    and b: "\<not> jsIncludes (js ''All good'') (js ''Design Issues:'')"
    and c: "\<not> jsIncludes (js ''All good'') (js ''Recommendations:'')"
    by (simp_all add: js_def)
  have "exitPoints (parseVisual (js ''All good'')) = [] \<and>
        designIssues (parseVisual (js ''All good'')) = [] \<and>
        visual_recommendations (parseVisual (js ''All good'')) = []"
    using visual_parser_sections [of "js ''All good''"] a b c by blast
  then have "parseVisual (js ''All good'') =
     \<lparr>exitPoints = [], designIssues = [], visual_recommendations = []\<rparr>"
    by (cases "parseVisual (js ''All good'')") simp
  with a b c show ?thesis by blast
qed

text \<open>
  C8 as stated keeps a line that is a bullet marker followed by issue text.  In the section
  of \<open>bulletNarrative\<close> the line "- Checkout link leaves the site" is such a line: the
  stated post-processing keeps it, the parser drops it.
\<close>

theorem bullet_line_counterexample:
  "matchSection (js ''Exit Points:'') (Some (js ''Design Issues:'')) bulletNarrative
     = Some bulletSection
   \<and> spec_processSection bulletSection = [js ''- Checkout link leaves the site'', js ''Footer'']
   \<and> processSection (Some bulletSection) = [js ''Footer'']"
  by (simp add: bulletNarrative_def bulletSection_def spec_processSection_def
        spec_pureBulletLine_def parser_defs)

text \<open>
  C8, as the code has it.  A section text is split at the line breaks, each line is
  trimmed, every line that is empty or begins with a bullet marker is dropped (whatever
  follows the marker), and a leading ordinal is stripped from each line that is left, in
  the original order.  On a section text in which no line has text after a leading bullet
  marker and no line is an ordinal alone, this is the post-processing that the
  specification states.
\<close>

theorem section_postprocessing:
  "processSection (Some s) = map stripOrdinal (filter keepPoint (map trim (splitOn 10 s)))
   \<and> (plainSection s \<longrightarrow> processSection (Some s) = spec_processSection s)"
  by (simp add: processSection_pipeline plainSection_def spec_processSection_def agree_lines)

theorem section_postprocessing_witness:
  "plainSection plainExample \<and>
   processSection (Some plainExample) = [js ''A'', js ''B'', js ''C''] \<and>
   spec_processSection plainExample = [js ''A'', js ''B'', js ''C'']"
proof -
  have p: "plainSection plainExample"
    by (simp add: plainExample_def plainSection_def spec_pureBulletLine_def parser_defs)
  have v: "processSection (Some plainExample) = [js ''A'', js ''B'', js ''C'']"
    by (simp add: plainExample_def parser_defs)
  have "processSection (Some plainExample) = spec_processSection plainExample"
    using section_postprocessing [of plainExample] p by blast
  with p v show ?thesis by simp
qed

section \<open>Properties of the auto-scroll sweep\<close>

lemma growing_never:
  assumes "autoScrollFrom p t h = Some y"
  shows "\<not> (p = growingPage \<and> h = 100 * t)"
proof (rule autoScrollFrom.raw_induct
         [where P = "\<lambda>p t h y. \<not> (p = growingPage \<and> h = 100 * t)", OF _ assms])
  fix f :: "page \<Rightarrow> nat \<Rightarrow> nat \<Rightarrow> nat option" and p t h y
  assume IH: "\<And>a b c y. f a b c = Some y \<Longrightarrow> \<not> (a = growingPage \<and> c = 100 * b)"
    and eq: "(let scrollHeight = p t; totalHeight' = h + 100
              in if scrollHeight \<le> totalHeight' then Some totalHeight'
                 else f p (Suc t) totalHeight') = Some y"
  show "\<not> (p = growingPage \<and> h = 100 * t)"
  proof
    assume inv: "p = growingPage \<and> h = 100 * t"
    with eq have "f growingPage (Suc t) (100 * t + 100) = Some y"
      by (simp add: Let_def growingPage_def split: if_splits)
    from IH [OF this] show False by simp
  qed
qed

lemma autoScrollFrom_step:
  "100 * Suc k < page k \<Longrightarrow>
   autoScrollFrom page k (100 * k) = autoScrollFrom page (Suc k) (100 * Suc k)"
proof -
  assume a: "100 * Suc k < page k"
  have e: "100 * k + 100 = 100 * Suc k" by simp
  show ?thesis
    by (subst autoScrollFrom.simps) (use a in \<open>simp only: Let_def e not_le [symmetric] if_False\<close>)
qed

lemma autoScrollFrom_last:
  "page n \<le> 100 * Suc n \<Longrightarrow> autoScrollFrom page n (100 * n) = Some (100 * Suc n)"
  by (subst autoScrollFrom.simps) (simp add: Let_def)

lemma autoScrollFrom_stop:
  "k \<le> n \<Longrightarrow> (\<forall>j. k \<le> j \<and> j < n \<longrightarrow> 100 * Suc j < page j) \<Longrightarrow> page n \<le> 100 * Suc n \<Longrightarrow>
   autoScrollFrom page k (100 * k) = Some (100 * Suc n)"
proof (induction "n - k" arbitrary: k)
  case 0
  then have "k = n" by simp
  with 0 show ?case by (simp add: autoScrollFrom_last)
next
  case (Suc d)
  then have lt: "k < n" by simp
  with Suc.prems have "100 * Suc k < page k" by simp
  then have "autoScrollFrom page k (100 * k) = autoScrollFrom page (Suc k) (100 * Suc k)"
    by (rule autoScrollFrom_step)
  moreover have "autoScrollFrom page (Suc k) (100 * Suc k) = Some (100 * Suc n)"
  proof (rule Suc.hyps(1))
    show "d = n - Suc k" using Suc.hyps(2) by simp
    show "Suc k \<le> n" using lt by simp
    show "\<forall>j. Suc k \<le> j \<and> j < n \<longrightarrow> 100 * Suc j < page j" using Suc.prems(2) by simp
    show "page n \<le> 100 * Suc n" by (rule Suc.prems(3))
  qed
  ultimately show ?case by simp
qed

text \<open>
  C9, as the code has it.  Each callback compares the accumulated distance with the scroll
  height it has just read.  On a page whose scroll height stays bounded by some H during
  the sweep, the sweep terminates: it stops at the first callback whose accumulated
  distance reaches the height read by that callback, after at most H div 100 further
  callbacks.
\<close>

theorem autoScroll_bounded:
  assumes "\<forall>k. page k \<le> H"
  shows "\<exists>n. autoScroll page = Some (100 * Suc n) \<and> page n \<le> 100 * Suc n \<and>
             (\<forall>j<n. 100 * Suc j < page j) \<and> 100 * n \<le> H"
proof -
  define n where "n = (LEAST k. page k \<le> 100 * Suc k)"
  have "page H \<le> 100 * Suc H" using assms [rule_format, of H] by simp
  then have stop: "page n \<le> 100 * Suc n"
    unfolding n_def by (rule LeastI)
  have before: "\<forall>j<n. 100 * Suc j < page j"
  proof (intro allI impI)
    fix j assume "j < n"
    then have "\<not> page j \<le> 100 * Suc j"
      unfolding n_def by (rule not_less_Least)
    then show "100 * Suc j < page j" by simp
  qed
  have "autoScrollFrom page 0 (100 * 0) = Some (100 * Suc n)"
    using before stop by (intro autoScrollFrom_stop) simp_all
  then have run: "autoScroll page = Some (100 * Suc n)"
    by (simp add: autoScroll_def)
  have "100 * n \<le> H"
  proof (cases n)
    case 0
    then show ?thesis by simp
  next
    case (Suc m)
    with before have "100 * Suc m < page m" by simp
    also have "page m \<le> H" using assms by simp
    finally show ?thesis using Suc by simp
  qed
  with run stop before show ?thesis by blast
qed

theorem autoScroll_bounded_witness:
  "autoScroll staticPage = Some 300"
proof -
  have b: "\<forall>k. staticPage k \<le> 250" by (simp add: staticPage_def)
  from autoScroll_bounded [OF b] obtain n where
    n: "autoScroll staticPage = Some (100 * Suc n)" "staticPage n \<le> 100 * Suc n"
       "\<forall>j<n. 100 * Suc j < staticPage j" "100 * n \<le> 250" by blast
  have "n = 2"
  proof -
    from n(2) have "2 \<le> n" by (simp add: staticPage_def)
    moreover from n(4) have "n \<le> 2" by simp
    ultimately show ?thesis by simp
  qed
  with n(1) show ?thesis by simp
qed

text \<open>
  C9 as stated has the sweep stop once the accumulated distance reaches the scroll height
  recorded at the start, on every page.  On \<open>growingPage\<close> that height is 200, reached by
  the second callback; the sweep of the code never ends.
\<close>

theorem autoScroll_counterexample:
  "growingPage 0 = 200 \<and> autoScroll growingPage = None"
proof -
  have "autoScrollFrom growingPage 0 0 = None"
  proof (cases "autoScrollFrom growingPage 0 0")
    case None
    then show ?thesis .
  next
    case (Some y)
    then show ?thesis using growing_never [of growingPage 0 0 y] by simp
  qed
  then show ?thesis by (simp add: autoScroll_def growingPage_def)
qed

section \<open>Properties of the pipelines\<close>

lemma analyzeAssetsWithAI_eq:
  "analyzeAssetsWithAI env as t u issued =
     (case responseText (chat env (assetsRequest as t u)) of
        None \<Rightarrow> assetsError | Some txt \<Rightarrow> parseAssets txt,
      issued @ [assetsRequest as t u])"
  by (simp add: analyzeAssetsWithAI_def create_def split: option.splits)

lemma analyzeContentWithAI_eq:
  "analyzeContentWithAI env c t u issued =
     (case responseText (chat env (contentRequest c t u)) of
        None \<Rightarrow> contentError | Some txt \<Rightarrow> parseContent txt,
      issued @ [contentRequest c t u])"
  by (simp add: analyzeContentWithAI_def create_def split: option.splits)

lemma analyzePageWithAI_eq:
  "analyzePageWithAI env t u s issued =
     (case responseText (chat env (VisualPrompt t u s)) of
        None \<Rightarrow> visualError | Some txt \<Rightarrow> parseVisual txt,
      issued @ [VisualPrompt t u s])"
  by (simp add: analyzePageWithAI_def create_def split: option.splits)

lemmas analyzer_eqs = analyzeAssetsWithAI_eq analyzeContentWithAI_eq analyzePageWithAI_eq

lemma withClient_loaded: "OPENAI_API_KEY env = Some k \<Longrightarrow> withClient env call = call"
  by (simp add: withClient_def newOpenAI_def)

lemma withClient_unset: "OPENAI_API_KEY env = None \<Longrightarrow> withClient env call = NotLoaded OpenAIError"
  by (simp add: withClient_def newOpenAI_def)

lemma requestsOf_closeBrowser: "requestsOf (closeBrowser cl r) = requestsOf r"
  by (cases r; cases cl) simp_all

text \<open>A run that reaches the model requests: the browser launched and the capture succeeded.\<close>

lemma analyze_captured:
  assumes "br_launch browser = None" and "capture browser = Some (Inr cap)"
  shows "analyze env browser url =
     closeBrowser (br_close browser)
       (Returned
          \<lparr>mainPage =
             \<lparr>sp_url = url, sp_title = cap_title cap, sp_screenshot = cap_screenshot cap,
              sp_content = cap_content cap, sp_assets = cap_assets cap,
              sp_analysis =
                \<lparr>res_visual =
                   fst (analyzePageWithAI env (cap_title cap) url (cap_screenshot cap) []),
                 res_assets = fst (analyzeAssetsWithAI env (cap_assets cap) (cap_title cap) url []),
                 res_content =
                   fst (analyzeContentWithAI env (cap_content cap) (cap_title cap) url [])\<rparr>\<rparr>,
           allLinks = cap_links cap\<rparr>
          [assetsRequest (cap_assets cap) (cap_title cap) url,
           contentRequest (cap_content cap) (cap_title cap) url,
           VisualPrompt (cap_title cap) url (cap_screenshot cap)])"
  using assms by (simp add: analyze_def analyzer_eqs Let_def)

text \<open>Conversely, a request is issued only in such a run.\<close>

lemma requests_need_capture:
  assumes "requestsOf (analyze env browser url) \<noteq> []"
  shows "br_launch browser = None \<and> (\<exists>cap. capture browser = Some (Inr cap))"
  using assms
  by (auto simp: analyze_def requestsOf_closeBrowser rethrow_def
           split: option.splits sum.splits)

lemma analysisOf_analyze:
  assumes "br_launch browser = None" and "capture browser = Some (Inr cap)"
    and "br_close browser = None"
  shows "analysisOf (analyze env browser url) =
     Some \<lparr>res_visual = fst (analyzePageWithAI env (cap_title cap) url (cap_screenshot cap) []),
           res_assets = fst (analyzeAssetsWithAI env (cap_assets cap) (cap_title cap) url []),
           res_content = fst (analyzeContentWithAI env (cap_content cap) (cap_title cap) url [])\<rparr>"
  by (simp add: analyze_captured [OF assms(1,2)] assms(3))

lemma parseAssets_empty: "parseAssets [] = noAssetsIssues"
  by (simp add: parseAssets_def noAssetsIssues_def matchSection_def processSection_def js_def)

lemma autoScroll_shortPage: "autoScroll shortPage = Some 100"
proof -
  have "autoScrollFrom shortPage 0 (100 * 0) = Some (100 * Suc 0)"
    by (rule autoScrollFrom_last) (simp add: shortPage_def)
  then show ?thesis by (simp add: autoScroll_def)
qed

lemma capture_example: "capture exampleBrowser = Some (Inr exampleCaptured)"
  by (simp add: capture_def await_def awaitVoid_def exampleBrowser_def autoScroll_shortPage)

text \<open>A page that keeps growing leaves \<open>analyze\<close> pending: nothing is returned or thrown.\<close>

lemma analyze_pending:
  assumes "br_launch browser = None" and "capture browser = None"
  shows "analyze env browser url = Pending"
  using assms by (simp add: analyze_def)

text \<open>
  C1, as the code has it.  Take a run of \<open>analyze\<close> that reaches the model requests: the
  module loaded, the browser launched and the capture (navigation, sweep, screenshot,
  extraction, title) succeeded.  If the assets request throws (the service rejects it, or
  the completion has no choice), the assets category is exactly the entry "Error analyzing
  assets with AI" with empty lists elsewhere; an empty message content is not a failure
  and gives five empty lists.  The visual and the content category are determined by the
  reply to their own request alone, so they are what they would be with any other fate of
  the assets request.  And if closing the browser does not throw, the pipeline returns a
  result, whatever the three replies are.
\<close>

theorem assets_failure_local:
  assumes "OPENAI_API_KEY env = Some k" and "OPENAI_API_KEY env' = Some k'"
    and "br_launch browser = None" and "capture browser = Some (Inr cap)"
    and "br_close browser = None"
  shows "(\<exists>r issued. withClient env (analyze env browser url) = Returned r issued)
   \<and> (responseText (chat env (assetsRequest (cap_assets cap) (cap_title cap) url)) = None
        \<longrightarrow> map_option res_assets (analysisOf (withClient env (analyze env browser url)))
              = Some assetsError)
   \<and> (responseText (chat env (assetsRequest (cap_assets cap) (cap_title cap) url)) = Some []
        \<longrightarrow> map_option res_assets (analysisOf (withClient env (analyze env browser url)))
              = Some noAssetsIssues)
   \<and> (chat env' (VisualPrompt (cap_title cap) url (cap_screenshot cap))
         = chat env (VisualPrompt (cap_title cap) url (cap_screenshot cap))
        \<longrightarrow> map_option res_visual (analysisOf (withClient env' (analyze env' browser url)))
              = map_option res_visual (analysisOf (withClient env (analyze env browser url))))
   \<and> (chat env' (contentRequest (cap_content cap) (cap_title cap) url)
         = chat env (contentRequest (cap_content cap) (cap_title cap) url)
        \<longrightarrow> map_option res_content (analysisOf (withClient env' (analyze env' browser url)))
              = map_option res_content (analysisOf (withClient env (analyze env browser url))))"
proof -
  note w = withClient_loaded [OF assms(1)] withClient_loaded [OF assms(2)]
  note a = analysisOf_analyze [OF assms(3,4,5)]
  show ?thesis
  proof (intro conjI impI)
    show "\<exists>r issued. withClient env (analyze env browser url) = Returned r issued"
      by (simp add: w analyze_captured [OF assms(3,4)] assms(5))
  next
    assume "responseText (chat env (assetsRequest (cap_assets cap) (cap_title cap) url)) = None"
    then show "map_option res_assets (analysisOf (withClient env (analyze env browser url)))
                 = Some assetsError"
      by (simp add: w a analyzeAssetsWithAI_eq)
  next
    assume "responseText (chat env (assetsRequest (cap_assets cap) (cap_title cap) url)) = Some []"
    then show "map_option res_assets (analysisOf (withClient env (analyze env browser url)))
                 = Some noAssetsIssues"
      by (simp add: w a analyzeAssetsWithAI_eq parseAssets_empty)
  next
    assume "chat env' (VisualPrompt (cap_title cap) url (cap_screenshot cap))
            = chat env (VisualPrompt (cap_title cap) url (cap_screenshot cap))"
    then show "map_option res_visual (analysisOf (withClient env' (analyze env' browser url)))
                 = map_option res_visual (analysisOf (withClient env (analyze env browser url)))"
      by (simp add: w a analyzePageWithAI_eq)
  next
    assume "chat env' (contentRequest (cap_content cap) (cap_title cap) url)
            = chat env (contentRequest (cap_content cap) (cap_title cap) url)"
    then show "map_option res_content (analysisOf (withClient env' (analyze env' browser url)))
                 = map_option res_content (analysisOf (withClient env (analyze env browser url)))"
      by (simp add: w a analyzeContentWithAI_eq)
  qed
qed

lemmas example_run_defs =
  exampleBrowser_def exampleCaptured_def exampleUrl_def exampleServerContent_def
  threeImageAssets_def emptyAssets_def assetsRequest_def contentRequest_def

theorem assets_failure_local_witness:
  "map_option res_assets (analysisOf (withClient assetsDownEnv
       (analyze assetsDownEnv exampleBrowser exampleUrl))) = Some assetsError
   \<and> map_option res_visual (analysisOf (withClient assetsDownEnv
       (analyze assetsDownEnv exampleBrowser exampleUrl)))
     = map_option res_visual (analysisOf (withClient healthyEnv
       (analyze healthyEnv exampleBrowser exampleUrl)))
   \<and> map_option res_content (analysisOf (withClient assetsDownEnv
       (analyze assetsDownEnv exampleBrowser exampleUrl)))
     = map_option res_content (analysisOf (withClient healthyEnv
       (analyze healthyEnv exampleBrowser exampleUrl)))"
proof -
  have kd: "OPENAI_API_KEY assetsDownEnv = Some (js ''sk-test'')"
    by (simp add: assetsDownEnv_def)
  have kh: "OPENAI_API_KEY healthyEnv = Some (js ''sk-test'')"
    by (simp add: healthyEnv_def)
  have l: "br_launch exampleBrowser = None" and cl: "br_close exampleBrowser = None"
    by (simp_all add: exampleBrowser_def)
  have down: "responseText (chat assetsDownEnv
      (assetsRequest (cap_assets exampleCaptured) (cap_title exampleCaptured) exampleUrl)) = None"
    by (simp add: assetsDownEnv_def assetsRequest_def)
  have v: "chat assetsDownEnv (VisualPrompt (cap_title exampleCaptured) exampleUrl
                (cap_screenshot exampleCaptured))
         = chat healthyEnv (VisualPrompt (cap_title exampleCaptured) exampleUrl
                (cap_screenshot exampleCaptured))"
    by (simp add: assetsDownEnv_def healthyEnv_def)
  have c: "chat assetsDownEnv (contentRequest (cap_content exampleCaptured)
                (cap_title exampleCaptured) exampleUrl)
         = chat healthyEnv (contentRequest (cap_content exampleCaptured)
                (cap_title exampleCaptured) exampleUrl)"
    by (simp add: assetsDownEnv_def healthyEnv_def contentRequest_def)
  show ?thesis
    using assets_failure_local [OF kh kd l capture_example cl, of exampleUrl]
      assets_failure_local [OF kd kd l capture_example cl, of exampleUrl] down v c
    by simp
qed

text \<open>
  C1 as stated counts an empty message content among the failures that yield the error
  entry.  With an empty reply to the assets request the assets category is five empty
  lists.
\<close>

theorem assets_failure_counterexample:
  "map_option res_assets (analysisOf (withClient assetsEmptyEnv
       (analyze assetsEmptyEnv exampleBrowser exampleUrl))) = Some noAssetsIssues
   \<and> map_option res_assets (analysisOf (withClient assetsEmptyEnv
       (analyze assetsEmptyEnv exampleBrowser exampleUrl))) \<noteq> Some assetsError"
proof -
  have k: "OPENAI_API_KEY assetsEmptyEnv = Some (js ''sk-test'')"
    by (simp add: assetsEmptyEnv_def)
  have l: "br_launch exampleBrowser = None" and cl: "br_close exampleBrowser = None"
    by (simp_all add: exampleBrowser_def)
  have e: "map_option res_assets (analysisOf (withClient assetsEmptyEnv
       (analyze assetsEmptyEnv exampleBrowser exampleUrl))) = Some noAssetsIssues"
  proof -
    have "analysisOf (withClient assetsEmptyEnv (analyze assetsEmptyEnv exampleBrowser exampleUrl))
      = analysisOf (analyze assetsEmptyEnv exampleBrowser exampleUrl)"
      by (simp only: withClient_loaded [OF k])
    then show ?thesis
      by (simp add: analysisOf_analyze [OF l capture_example cl]
            analyzeAssetsWithAI_eq assetsEmptyEnv_def assetsRequest_def parseAssets_empty)
  qed
  show ?thesis
  proof (intro conjI)
    show "map_option res_assets (analysisOf (withClient assetsEmptyEnv
       (analyze assetsEmptyEnv exampleBrowser exampleUrl))) = Some noAssetsIssues"
      by (rule e)
    show "map_option res_assets (analysisOf (withClient assetsEmptyEnv
       (analyze assetsEmptyEnv exampleBrowser exampleUrl))) \<noteq> Some assetsError"
      unfolding e by (simp add: assetsError_def noAssetsIssues_def)
  qed
qed

text \<open>
  C7, as the code has it.  In the serverless pipeline, \<open>analyzePageContent\<close> called with
  the API key set to the empty string returns the analysis of the heuristic analyzer and
  leaves the request log as it was.  The pipeline of \<open>analyze\<close> has no such check: in a
  module loaded with any key, a run whose capture succeeds issues its three requests.
\<close>

theorem credential_bypass:
  "(OPENAI_API_KEY env = Some [] \<longrightarrow>
      withClient env (analyzePageContent env JSON_parse c as issued)
        = Returned (DefaultAnalysis (generateDefaultAnalysis c as)) issued)
   \<and> (OPENAI_API_KEY env = Some k \<and> br_launch browser = None \<and>
       capture browser = Some (Inr cap) \<longrightarrow>
      requestsOf (withClient env (analyze env browser url)) =
        [assetsRequest (cap_assets cap) (cap_title cap) url,
         contentRequest (cap_content cap) (cap_title cap) url,
         VisualPrompt (cap_title cap) url (cap_screenshot cap)])"
proof (intro conjI impI)
  assume "OPENAI_API_KEY env = Some []"
  then show "withClient env (analyzePageContent env JSON_parse c as issued)
        = Returned (DefaultAnalysis (generateDefaultAnalysis c as)) issued"
    by (simp add: withClient_loaded analyzePageContent_def keyMissing_def)
next
  assume a: "OPENAI_API_KEY env = Some k \<and> br_launch browser = None \<and>
       capture browser = Some (Inr cap)"
  then have "analyze env browser url = closeBrowser (br_close browser)
       (Returned
          \<lparr>mainPage =
             \<lparr>sp_url = url, sp_title = cap_title cap, sp_screenshot = cap_screenshot cap,
              sp_content = cap_content cap, sp_assets = cap_assets cap,
              sp_analysis =
                \<lparr>res_visual =
                   fst (analyzePageWithAI env (cap_title cap) url (cap_screenshot cap) []),
                 res_assets = fst (analyzeAssetsWithAI env (cap_assets cap) (cap_title cap) url []),
                 res_content =
                   fst (analyzeContentWithAI env (cap_content cap) (cap_title cap) url [])\<rparr>\<rparr>,
           allLinks = cap_links cap\<rparr>
          [assetsRequest (cap_assets cap) (cap_title cap) url,
           contentRequest (cap_content cap) (cap_title cap) url,
           VisualPrompt (cap_title cap) url (cap_screenshot cap)])"
    by (intro analyze_captured) simp_all
  with a show "requestsOf (withClient env (analyze env browser url)) =
        [assetsRequest (cap_assets cap) (cap_title cap) url,
         contentRequest (cap_content cap) (cap_title cap) url,
         VisualPrompt (cap_title cap) url (cap_screenshot cap)]"
    by (simp add: withClient_loaded requestsOf_closeBrowser)
qed

theorem credential_bypass_witness:
  "withClient emptyKeyEnv (analyzePageContent emptyKeyEnv rejectJSON
       (headingsContent [exampleHeading 2]) threeImageAssets [])
     = Returned (DefaultAnalysis
         (generateDefaultAnalysis (headingsContent [exampleHeading 2]) threeImageAssets)) []
   \<and> length (requestsOf (withClient emptyKeyEnv
        (analyze emptyKeyEnv exampleBrowser exampleUrl))) = 3"
proof -
  have k: "OPENAI_API_KEY emptyKeyEnv = Some []"
    by (simp add: emptyKeyEnv_def)
  have l: "br_launch exampleBrowser = None"
    by (simp add: exampleBrowser_def)
  show ?thesis
    using credential_bypass [of emptyKeyEnv rejectJSON "headingsContent [exampleHeading 2]"
        threeImageAssets "[]" "[]" exampleBrowser exampleCaptured exampleUrl]
      k l capture_example
    by simp
qed

text \<open>
  C7 as stated covers every analysis request.  With the key set to the empty string, which
  the code counts as no key, a run of \<open>analyze\<close> issues three model requests, and its
  analysis holds the three error entries, not the output of the heuristic analyzer.
\<close>

theorem credential_counterexample:
  "keyMissing emptyKeyEnv \<and>
   length (requestsOf (withClient emptyKeyEnv
     (analyze emptyKeyEnv exampleBrowser exampleUrl))) = 3 \<and>
   analysisOf (withClient emptyKeyEnv (analyze emptyKeyEnv exampleBrowser exampleUrl))
     = Some \<lparr>res_visual = visualError, res_assets = assetsError, res_content = contentError\<rparr>"
proof -
  have k: "OPENAI_API_KEY emptyKeyEnv = Some []"
    by (simp add: emptyKeyEnv_def)
  have l: "br_launch exampleBrowser = None" and cl: "br_close exampleBrowser = None"
    by (simp_all add: exampleBrowser_def)
  have c: "chat emptyKeyEnv = rejectAll"
    by (simp add: emptyKeyEnv_def)
  show ?thesis
    by (simp add: withClient_loaded [OF k] analyze_captured [OF l capture_example] cl
          analyzer_eqs c keyMissing_def k)
qed

end
